theory Spec2Isabelle
  imports Main "HOL-Library.Word"
begin

section \<open>The dynamic shared library module (\<open>src/runtime/dso_module.cc\<close>)\<close>

subsection \<open>Data model\<close>

type_synonym addr = nat
type_synonym handle = nat
type_synonym byte = "8 word"

text \<open>
  A failed check throws an error. For a plain \<open>CHECK\<close> the payload of \<open>CheckFailed\<close> is the
  text the source streams into the check with \<open><<\<close> (empty when the check carries no
  message); what the macro itself writes ahead of it names the condition and is the same
  at every failure of that check, and is left out. A failed \<open>CHECK_EQ\<close> also prints the two
  values it compared, so its text varies from failure to failure: the payload of
  \<open>CheckEqFailed\<close> is the whole text of the error, the macro's part followed by the
  streamed part.
\<close>

datatype error = CheckFailed string | CheckEqFailed string

text \<open>
  The constants of \<open>runtime::symbol\<close> are declared in a header and are taken as parameters.
\<close>

record symbol =
  tvm_module_ctx :: string
  tvm_dev_mblob :: string
  tvm_dev_mblob_nbytes :: string
  tvm_module_main :: string

text \<open>
  The mutable world outside the module object: the pointer cells of foreign memory the host
  has written, the last-error channel read by \<open>TVMGetLastError\<close>, the handles given to
  \<open>dlclose\<close> / \<open>FreeLibrary\<close> so far (a null handle is \<open>None\<close>), and the state of the
  external collaborators (the deserializers act on it).
\<close>

record 'x world =
  ptr_cells :: "addr \<rightharpoonup> addr"
  last_error :: string
  unloaded :: "handle option list"
  external :: 'x

record TVMArgs =
  arg_values :: "64 word list"
  type_codes :: "int list"
  num_args :: int

text \<open>\<open>BackendPackedCFunc\<close>: \<open>int (*)(void* args, int* type_codes, int num_args)\<close>.\<close>

type_synonym 'x BackendPackedCFunc =
  "64 word list \<Rightarrow> int list \<Rightarrow> int \<Rightarrow> 'x world \<Rightarrow> 32 word \<times> 'x world"

text \<open>A \<open>PackedFunc\<close> is empty (\<open>None\<close>, as \<open>PackedFunc()\<close>) or holds a body.\<close>

type_synonym 'x PackedFunc =
  "(TVMArgs \<Rightarrow> 'x world \<Rightarrow> (error + unit) \<times> 'x world) option"

text \<open>
  Modelled from the spec: \<open>dmlc::MemoryFixedSizeStream\<close> and \<open>dmlc::Stream::Read\<close> are not
  under src/. The stream is a fixed in-memory buffer with a forward-only read cursor; the
  count and the length prefix of a string are 8-byte unsigned integers in native
  (little-endian) byte order; a read that needs more bytes than remain fails.
\<close>

record stream =
  buffer :: "byte list"
  curr_ptr :: nat

definition Read :: "stream \<Rightarrow> nat \<Rightarrow> (byte list \<times> stream) option" where
  "Read s n =
     (if curr_ptr s + n \<le> length (buffer s)
      then Some (take n (drop (curr_ptr s) (buffer s)), s\<lparr>curr_ptr := curr_ptr s + n\<rparr>)
      else None)"

fun le_decode :: "byte list \<Rightarrow> nat" where
  "le_decode [] = 0"
| "le_decode (b # bs) = unat b + 256 * le_decode bs"

definition Read_uint64 :: "stream \<Rightarrow> (nat \<times> stream) option" where
  "Read_uint64 s =
     (case Read s 8 of None \<Rightarrow> None | Some (bs, s') \<Rightarrow> Some (le_decode bs, s'))"

definition Read_string :: "stream \<Rightarrow> (string \<times> stream) option" where
  "Read_string s =
     (case Read_uint64 s of
        None \<Rightarrow> None
      | Some (sz, s1) \<Rightarrow>
          (case Read s1 sz of
             None \<Rightarrow> None
           | Some (bs, s2) \<Rightarrow> Some (map (\<lambda>b. char_of (unat b)) bs, s2)))"

text \<open>
  A deserializer registered under \<open>module.loadbinary_<type_key>\<close>: it is given the shared
  stream, moves its cursor, and returns a module or throws.
\<close>

type_synonym ('m, 'x) loader = "stream \<Rightarrow> 'x \<Rightarrow> (error + 'm \<times> stream) \<times> 'x"

text \<open>
  The process the module lives in: the symbol names, the platform loader (\<open>dlopen\<close>,
  \<open>dlsym\<close>; a null result is \<open>None\<close>), what a \<open>reinterpret_cast\<close> of an address reads
  there (a NUL-terminated string, a byte, an \<open>unsigned long\<close>, a native function), the
  process-wide registry, and the logging macro \<open>CHECK_EQ\<close>, which is not under src/:
  \<open>check_eq_text E x y\<close> is what \<open>CHECK_EQ\<close> writes ahead of the streamed text when the
  comparison of the \<open>int\<close> values \<open>x\<close> and \<open>y\<close> fails.
\<close>

record ('m, 'x) env =
  sym :: symbol
  dlopen :: "string \<Rightarrow> handle option"
  dlsym :: "handle option \<Rightarrow> string \<Rightarrow> addr option"
  cstr_at :: "addr \<Rightarrow> string"
  byte_at :: "addr \<Rightarrow> byte"
  ulong_at :: "addr \<Rightarrow> nat"
  code_at :: "addr \<Rightarrow> 'x BackendPackedCFunc"
  Registry_Get :: "string \<Rightarrow> ('m, 'x) loader option"
  check_eq_text :: "32 word \<Rightarrow> 32 word \<Rightarrow> string"

text \<open>
  The object: its own address (\<open>this\<close>), \<open>lib_handle_\<close> and \<open>imports_\<close> (a trailing
  underscore is not a legal name here, so the two fields carry a prime).
\<close>

record 'm DSOModuleNode =
  self_addr :: addr
  lib_handle' :: "handle option"
  imports' :: "'m list"

definition new_DSOModuleNode :: "addr \<Rightarrow> 'm DSOModuleNode" where
  "new_DSOModuleNode a = \<lparr>self_addr = a, lib_handle' = None, imports' = []\<rparr>"

subsection \<open>Platform dependent handling\<close>

definition Load :: "('m, 'x) env \<Rightarrow> string \<Rightarrow> 'm DSOModuleNode \<Rightarrow> 'm DSOModuleNode" where
  "Load E name n = n\<lparr>lib_handle' := dlopen E name\<rparr>"

definition GetFuncPtr' :: "('m, 'x) env \<Rightarrow> 'm DSOModuleNode \<Rightarrow> string \<Rightarrow> addr option" where
  "GetFuncPtr' E n name = dlsym E (lib_handle' n) name"

definition GetGlobalVPtr :: "('m, 'x) env \<Rightarrow> 'm DSOModuleNode \<Rightarrow> string \<Rightarrow> addr option" where
  "GetGlobalVPtr E n name = dlsym E (lib_handle' n) name"

definition Unload :: "'m DSOModuleNode \<Rightarrow> 'x world \<Rightarrow> 'x world" where
  "Unload n w = w\<lparr>unloaded := unloaded w @ [lib_handle' n]\<rparr>"

text \<open>The destructor: \<open>if (lib_handle_) Unload();\<close>\<close>

definition destroy :: "'m DSOModuleNode \<Rightarrow> 'x world \<Rightarrow> 'x world" where
  "destroy n w = (if lib_handle' n \<noteq> None then Unload n w else w)"

subsection \<open>Function resolution and the calling-convention adapter\<close>

definition GetFuncPtr ::
  "('m, 'x) env \<Rightarrow> 'm DSOModuleNode \<Rightarrow> string \<Rightarrow> error + addr option" where
  "GetFuncPtr E n name =
     (if name = tvm_module_main (sym E) then
        (case GetGlobalVPtr E n (tvm_module_main (sym E)) of
           None \<Rightarrow> Inl (CheckFailed (''Symbol '' @ tvm_module_main (sym E) @ '' is not presented''))
         | Some entry_name \<Rightarrow> Inr (GetFuncPtr' E n (cstr_at E entry_name)))
      else Inr (GetFuncPtr' E n name))"

text \<open>
  The body of the closure returned by \<open>GetFunction\<close>: it forwards the argument values,
  the type codes and the argument count to the native function and checks the status
  (\<open>CHECK_EQ(ret, 0) << TVMGetLastError()\<close>). The closure also captures \<open>sptr_to_self\<close>,
  which only keeps the module alive; reference counts are not part of the model.
\<close>

definition packed_call ::
  "('m, 'x) env \<Rightarrow> addr \<Rightarrow> TVMArgs \<Rightarrow> 'x world \<Rightarrow> (error + unit) \<times> 'x world" where
  "packed_call E faddr args w =
     (case code_at E faddr (arg_values args) (type_codes args) (num_args args) w of
        (ret, w') \<Rightarrow>
          if ret = 0 then (Inr (), w')
          else (Inl (CheckEqFailed (check_eq_text E ret 0 @ last_error w')), w'))"

definition GetFunction ::
  "('m, 'x) env \<Rightarrow> 'm DSOModuleNode \<Rightarrow> string \<Rightarrow> error + 'x PackedFunc" where
  "GetFunction E n name =
     (case GetFuncPtr E n name of
        Inl e \<Rightarrow> Inl e
      | Inr None \<Rightarrow> Inr None
      | Inr (Some faddr) \<Rightarrow> Inr (Some (packed_call E faddr)))"

subsection \<open>Initialization\<close>

text \<open>\<open>dmlc::MemoryFixedSizeStream fs((void*)dev_mblob, dev_mblob_nbytes[0])\<close>\<close>

definition MemoryFixedSizeStream :: "('m, 'x) env \<Rightarrow> addr \<Rightarrow> nat \<Rightarrow> stream" where
  "MemoryFixedSizeStream E p nbytes = \<lparr>buffer = map (byte_at E) [p ..< p + nbytes], curr_ptr = 0\<rparr>"

text \<open>
  The loop \<open>for (uint64_t i = 0; i < size; ++i)\<close> of \<open>Init\<close>, by recursion on the number of
  records still to load (\<open>size\<close> is read from 8 bytes, so it is below \<open>2 ^ 64\<close> and the
  counter does not wrap). The stream is local to \<open>Init\<close>; the loop hands it back so that the
  cursor can be observed. A deserializer that throws ends \<open>Init\<close> with its error.
\<close>

fun load_imports ::
  "('m, 'x) env \<Rightarrow> nat \<Rightarrow> stream \<Rightarrow> 'm DSOModuleNode \<Rightarrow> 'x world
     \<Rightarrow> (error + stream) \<times> 'm DSOModuleNode \<times> 'x world" where
  "load_imports E 0 s n w = (Inr s, n, w)"
| "load_imports E (Suc k) s n w =
     (case Read_string s of
        None \<Rightarrow> (Inl (CheckFailed []), n, w)
      | Some (tkey, s1) \<Rightarrow>
          (let fkey = ''module.loadbinary_'' @ tkey in
           case Registry_Get E fkey of
             None \<Rightarrow>
               (Inl (CheckFailed (''Loader of '' @ tkey @ ''('' @ fkey @ '') is not presented.'')),
                n, w)
           | Some f \<Rightarrow>
               (case f s1 (external w) of
                  (Inl e, x) \<Rightarrow> (Inl e, n, w\<lparr>external := x\<rparr>)
                | (Inr (m, s2), x) \<Rightarrow>
                    load_imports E k s2 (n\<lparr>imports' := imports' n @ [m]\<rparr>) (w\<lparr>external := x\<rparr>))))"

definition Init ::
  "('m, 'x) env \<Rightarrow> string \<Rightarrow> 'm DSOModuleNode \<Rightarrow> 'x world
     \<Rightarrow> (error + unit) \<times> 'm DSOModuleNode \<times> 'x world" where
  "Init E name n0 w0 =
     (let n = Load E name n0 in
      if lib_handle' n = None
      then (Inl (CheckFailed (''Failed to load dynamic shared library '' @ name)), n, w0)
      else
        let w = (case GetGlobalVPtr E n (tvm_module_ctx (sym E)) of
                   None \<Rightarrow> w0
                 | Some ctx_addr \<Rightarrow> w0\<lparr>ptr_cells := (ptr_cells w0)(ctx_addr \<mapsto> self_addr n)\<rparr>);
            dev_mblob = GetGlobalVPtr E n (tvm_dev_mblob (sym E));
            dev_mblob_nbytes = GetGlobalVPtr E n (tvm_dev_mblob_nbytes (sym E))
        in
          (case dev_mblob of
             None \<Rightarrow> (Inr (), n, w)
           | Some p \<Rightarrow>
               (case dev_mblob_nbytes of
                  None \<Rightarrow> (Inl (CheckFailed []), n, w)
                | Some q \<Rightarrow>
                    (case Read_uint64 (MemoryFixedSizeStream E p (ulong_at E q)) of
                       None \<Rightarrow> (Inl (CheckFailed []), n, w)
                     | Some (size', s) \<Rightarrow>
                         (case load_imports E size' s n w of
                            (Inl e, n', w') \<Rightarrow> (Inl e, n', w')
                          | (Inr s', n', w') \<Rightarrow> (Inr (), n', w'))))))"

text \<open>
  The factory registered as \<open>module.loadfile_so\<close>: it makes the object, initializes it and
  returns it; when \<open>Init\<close> throws, unwinding releases the only reference and the destructor
  runs.
\<close>

definition loadfile_so ::
  "('m, 'x) env \<Rightarrow> addr \<Rightarrow> string \<Rightarrow> 'x world \<Rightarrow> (error + 'm DSOModuleNode) \<times> 'x world" where
  "loadfile_so E a name w0 =
     (case Init E name (new_DSOModuleNode a) w0 of
        (Inl e, n, w) \<Rightarrow> (Inl e, destroy n w)
      | (Inr u, n, w) \<Rightarrow> (Inr n, w))"

subsection \<open>The catalog layout and the contract of a deserializer\<close>

text \<open>
  The layout of the embedded catalog in the spec's words: an 8-byte count, then the
  records, each a length-prefixed type key followed by a payload only its deserializer
  understands.
\<close>

fun le_encode :: "nat \<Rightarrow> nat \<Rightarrow> byte list" where
  "le_encode 0 v = []"
| "le_encode (Suc k) v = of_nat (v mod 256) # le_encode k (v div 256)"

definition enc_uint64 :: "nat \<Rightarrow> byte list" where
  "enc_uint64 v = le_encode 8 v"

definition enc_string :: "string \<Rightarrow> byte list" where
  "enc_string str = enc_uint64 (length str) @ map (\<lambda>c. of_nat (of_char c)) str"

definition enc_record :: "string \<times> byte list \<Rightarrow> byte list" where
  "enc_record r = enc_string (fst r) @ snd r"

definition enc_catalog :: "nat \<Rightarrow> (string \<times> byte list) list \<Rightarrow> byte list" where
  "enc_catalog count rs = enc_uint64 count @ concat (map enc_record rs)"

text \<open>
  \<open>stream_ahead s bs\<close>: the cursor is inside the buffer and \<open>bs\<close> is what lies ahead of it;
  \<open>skip k s\<close>: the stream with the cursor \<open>k\<close> bytes further.
\<close>

definition stream_ahead :: "stream \<Rightarrow> byte list \<Rightarrow> bool" where
  "stream_ahead s bs \<longleftrightarrow> curr_ptr s \<le> length (buffer s) \<and> drop (curr_ptr s) (buffer s) = bs"

definition skip :: "nat \<Rightarrow> stream \<Rightarrow> stream" where
  "skip k s = s\<lparr>curr_ptr := curr_ptr s + k\<rparr>"

text \<open>
  The contract of the deserializer of a record \<open>(type_key, payload)\<close>: one is registered
  under \<open>module.loadbinary_type_key\<close>, and started with the payload ahead of the cursor it
  returns the module \<open>decode type_key payload\<close>, has the effect \<open>effect type_key payload\<close>
  on the external state, and leaves the cursor right after the payload.
\<close>

definition consumes_payload ::
  "('m, 'x) env \<Rightarrow> (string \<Rightarrow> byte list \<Rightarrow> 'm) \<Rightarrow> (string \<Rightarrow> byte list \<Rightarrow> 'x \<Rightarrow> 'x)
     \<Rightarrow> string \<times> byte list \<Rightarrow> bool" where
  "consumes_payload E decode effect r \<longleftrightarrow>
     (\<exists>f. Registry_Get E (''module.loadbinary_'' @ fst r) = Some f \<and>
        (\<forall>s x rest. stream_ahead s (snd r @ rest) \<longrightarrow>
           f s x = (Inr (decode (fst r) (snd r), skip (length (snd r)) s), effect (fst r) (snd r) x)))"

text \<open>
  Two notions used to state the properties of \<open>Init\<close>: the world right after the
  module-context step of \<open>Init\<close>, and a library from which one exported symbol has been
  removed.
\<close>

definition ctx_written :: "('m, 'x) env \<Rightarrow> 'm DSOModuleNode \<Rightarrow> 'x world \<Rightarrow> 'x world" where
  "ctx_written E n w0 =
     (case GetGlobalVPtr E n (tvm_module_ctx (sym E)) of
        None \<Rightarrow> w0
      | Some ctx_addr \<Rightarrow> w0\<lparr>ptr_cells := (ptr_cells w0)(ctx_addr \<mapsto> self_addr n)\<rparr>)"

definition hide_symbol :: "string \<Rightarrow> ('m, 'x) env \<Rightarrow> ('m, 'x) env" where
  "hide_symbol nm E = E\<lparr>dlsym := (\<lambda>h s. if s = nm then None else dlsym E h s)\<rparr>"

subsection \<open>A test library\<close>

definition ex_sym :: symbol where
  "ex_sym = \<lparr>tvm_module_ctx = ''__tvm_module_ctx'', tvm_dev_mblob = ''__tvm_dev_mblob'',
     tvm_dev_mblob_nbytes = ''__tvm_dev_mblob_nbytes'', tvm_module_main = ''__tvm_main__''\<rparr>"

type_synonym ex_module = "string \<times> byte list"

definition ex_ok :: "string list BackendPackedCFunc" where
  "ex_ok vs tcs k w = (0, w)"

definition ex_fail :: "string list BackendPackedCFunc" where
  "ex_fail vs tcs k w = (1, w\<lparr>last_error := ''boom''\<rparr>)"

text \<open>
  The text of a failed \<open>CHECK_EQ(ret, 0)\<close> as the logging macro prints it, with the two
  values in decimal.
\<close>

primrec ex_decimal :: "nat \<Rightarrow> nat \<Rightarrow> string" where
  "ex_decimal 0 v = []"
| "ex_decimal (Suc k) v =
     (if v < 10 then [char_of (48 + v)]
      else ex_decimal k (v div 10) @ [char_of (48 + v mod 10)])"

definition ex_show_int :: "32 word \<Rightarrow> string" where
  "ex_show_int x =
     (if sint x < 0 then ''-'' @ ex_decimal 10 (nat (- sint x)) else ex_decimal 10 (nat (sint x)))"

definition ex_check_eq_text :: "32 word \<Rightarrow> 32 word \<Rightarrow> string" where
  "ex_check_eq_text x y =
     ''Check failed: ret == 0 ('' @ ex_show_int x @ '' vs. '' @ ex_show_int y @ '') ''"

definition ex_loader :: "string \<Rightarrow> nat \<Rightarrow> (ex_module, string list) loader" where
  "ex_loader key k s x =
     (case Read s k of
        None \<Rightarrow> (Inl (CheckFailed ''short payload''), x)
      | Some (bs, s') \<Rightarrow> (Inr ((key, bs), s'), x @ [key]))"

definition ex_env ::
  "(string \<rightharpoonup> addr) \<Rightarrow> byte list \<Rightarrow> (string \<rightharpoonup> (ex_module, string list) loader)
     \<Rightarrow> (ex_module, string list) env" where
  "ex_env exports blob reg =
     \<lparr>sym = ex_sym,
      dlopen = (\<lambda>path. if path = ''lib.so'' then Some 1 else None),
      dlsym = (\<lambda>h name. if h = Some 1 then exports name else None),
      cstr_at = (\<lambda>a. if a = 2 then ''foo'' else []),
      byte_at = (\<lambda>a. if 16 \<le> a \<and> a < 16 + length blob then blob ! (a - 16) else 0),
      ulong_at = (\<lambda>a. length blob),
      code_at = (\<lambda>a. if a = 3 then ex_ok else ex_fail),
      Registry_Get = reg,
      check_eq_text = ex_check_eq_text\<rparr>"

definition ex_node :: "ex_module DSOModuleNode" where
  "ex_node = \<lparr>self_addr = 7, lib_handle' = Some 1, imports' = []\<rparr>"

definition ex_world :: "string list world" where
  "ex_world = \<lparr>ptr_cells = Map.empty, last_error = [], unloaded = [], external = []\<rparr>"

definition ex_args :: TVMArgs where
  "ex_args = \<lparr>arg_values = [], type_codes = [], num_args = 0\<rparr>"

text \<open>Libraries built from it, one for each situation the properties below are tried on.\<close>

definition ex_plain :: "(ex_module, string list) env" where
  "ex_plain = ex_env [''__tvm_main__'' \<mapsto> 2, ''foo'' \<mapsto> 3, ''bad'' \<mapsto> 4] [] Map.empty"

definition ex_main_bad :: "(ex_module, string list) env" where
  "ex_main_bad = ex_env [''__tvm_main__'' \<mapsto> 2, ''foo'' \<mapsto> 4] [] Map.empty"

definition ex_no_main :: "(ex_module, string list) env" where
  "ex_no_main = ex_env [''foo'' \<mapsto> 3] [] Map.empty"

definition ex_dangling :: "(ex_module, string list) env" where
  "ex_dangling = ex_env [''__tvm_main__'' \<mapsto> 2] [] Map.empty"

definition ex_ctx :: "(ex_module, string list) env" where
  "ex_ctx = ex_env [''__tvm_module_ctx'' \<mapsto> 5] [] Map.empty"

definition ex_only_nbytes :: "(ex_module, string list) env" where
  "ex_only_nbytes = ex_env [''__tvm_dev_mblob_nbytes'' \<mapsto> 8] [] Map.empty"

definition ex_only_mblob :: "(ex_module, string list) env" where
  "ex_only_mblob = ex_env [''__tvm_dev_mblob'' \<mapsto> 16] [] Map.empty"

definition ex_blob_exports :: "string \<rightharpoonup> addr" where
  "ex_blob_exports = [''__tvm_dev_mblob'' \<mapsto> 16, ''__tvm_dev_mblob_nbytes'' \<mapsto> 8]"

definition ex_registry :: "string \<rightharpoonup> (ex_module, string list) loader" where
  "ex_registry = [''module.loadbinary_x'' \<mapsto> ex_loader ''x'' 2,
                  ''module.loadbinary_y'' \<mapsto> ex_loader ''y'' 3]"

definition ex_registry_x :: "string \<rightharpoonup> (ex_module, string list) loader" where
  "ex_registry_x = [''module.loadbinary_x'' \<mapsto> ex_loader ''x'' 2]"

text \<open>A blob too short to hold the count.\<close>

definition ex_short :: "(ex_module, string list) env" where
  "ex_short = ex_env ex_blob_exports [0, 0, 0, 0] Map.empty"

text \<open>A blob with count 0.\<close>

definition ex_empty_catalog :: "(ex_module, string list) env" where
  "ex_empty_catalog = ex_env ex_blob_exports (replicate 8 0) Map.empty"

text \<open>
  A blob with count 2 and the type keys \<open>x\<close> (payload of 2 bytes) and \<open>y\<close> (payload of 3
  bytes), loaded once with only \<open>x\<close> registered and once with both.
\<close>

definition ex_blob_xy :: "byte list" where
  "ex_blob_xy = [2, 0, 0, 0, 0, 0, 0, 0,
                 1, 0, 0, 0, 0, 0, 0, 0, 120, 1, 2,
                 1, 0, 0, 0, 0, 0, 0, 0, 121, 3, 4, 5]"

definition ex_xy :: "(ex_module, string list) env" where
  "ex_xy = ex_env ex_blob_exports ex_blob_xy ex_registry_x"

definition ex_chain :: "(ex_module, string list) env" where
  "ex_chain = ex_env ex_blob_exports ex_blob_xy ex_registry"

section \<open>Properties\<close>

subsection \<open>Reading the catalog\<close>

lemma length_le_encode [simp]: "length (le_encode k v) = k"
  by (induction k arbitrary: v) auto

lemma le_decode_le_encode: "le_decode (le_encode k v) = v mod 256 ^ k"
proof (induction k arbitrary: v)
  case 0
  then show ?case by simp
next
  case (Suc k)
  have "unat (of_nat (v mod 256) :: byte) = v mod 256"
    by (simp add: unat_of_nat)
  then show ?case
    using Suc [of "v div 256"] by (simp add: mod_mult2_eq)
qed

lemma length_enc_uint64 [simp]: "length (enc_uint64 v) = 8"
  by (simp add: enc_uint64_def)

lemma le_decode_enc_uint64: "v < 2 ^ 64 \<Longrightarrow> le_decode (enc_uint64 v) = v"
  by (simp add: enc_uint64_def le_decode_le_encode)

lemma skip_skip [simp]: "skip a (skip b s) = skip (b + a) s"
  by (simp add: skip_def)

lemma skip_0 [simp]: "skip 0 s = s"
  by (simp add: skip_def)

lemma Read_ahead:
  assumes "stream_ahead s (bs @ rest)"
  shows "Read s (length bs) = Some (bs, skip (length bs) s)"
    and "stream_ahead (skip (length bs) s) rest"
proof -
  from assms have le: "curr_ptr s \<le> length (buffer s)"
    and dr: "drop (curr_ptr s) (buffer s) = bs @ rest"
    by (simp_all add: stream_ahead_def)
  from dr have "length (buffer s) - curr_ptr s = length bs + length rest"
    by (metis length_append length_drop)
  with le have fits: "curr_ptr s + length bs \<le> length (buffer s)" by arith
  from dr have tk: "take (length bs) (drop (curr_ptr s) (buffer s)) = bs" by simp
  show "Read s (length bs) = Some (bs, skip (length bs) s)"
    using fits tk by (simp add: Read_def skip_def)
  have "drop (curr_ptr s + length bs) (buffer s) = drop (length bs) (drop (curr_ptr s) (buffer s))"
    by (simp add: add.commute)
  also have "\<dots> = rest" by (simp add: dr)
  finally show "stream_ahead (skip (length bs) s) rest"
    using fits by (simp add: stream_ahead_def skip_def)
qed

lemma Read_uint64_ahead:
  assumes "stream_ahead s (enc_uint64 v @ rest)" and "v < 2 ^ 64"
  shows "Read_uint64 s = Some (v, skip 8 s)"
    and "stream_ahead (skip 8 s) rest"
  using Read_ahead [OF assms(1)] assms(2)
  by (simp_all add: Read_uint64_def le_decode_enc_uint64)

lemma chars_of_bytes: "map (\<lambda>b. char_of (unat b)) (map (\<lambda>c. of_nat (of_char c) :: byte) str) = str"
  by (induction str) (simp_all add: unat_of_nat)

lemma length_enc_string [simp]: "length (enc_string str) = 8 + length str"
  by (simp add: enc_string_def)

lemma Read_string_ahead:
  assumes "stream_ahead s (enc_string str @ rest)" and "length str < 2 ^ 64"
  shows "Read_string s = Some (str, skip (8 + length str) s)"
    and "stream_ahead (skip (8 + length str) s) rest"
proof -
  from assms(1) have a: "stream_ahead s (enc_uint64 (length str) @ (map (\<lambda>c. of_nat (of_char c)) str @ rest))"
    by (simp add: enc_string_def)
  note u = Read_uint64_ahead [OF a assms(2)]
  note r = Read_ahead [OF u(2)]
  show "Read_string s = Some (str, skip (8 + length str) s)"
    using u(1) r(1) chars_of_bytes [of str] by (simp add: Read_string_def)
  show "stream_ahead (skip (8 + length str) s) rest"
    using r(2) by simp
qed

lemma load_imports_add:
  "load_imports E (a + b) s n w =
     (case load_imports E a s n w of
        (Inl e, n', w') \<Rightarrow> (Inl e, n', w')
      | (Inr s', n', w') \<Rightarrow> load_imports E b s' n' w')"
proof (induction a arbitrary: s n w)
  case 0
  show ?case by simp
next
  case (Suc a)
  show ?case
    by (simp add: Suc Let_def split: option.splits prod.splits sum.splits)
qed

lemma load_imports_unregistered:
  assumes "stream_ahead s (enc_string tkey @ rest)" and "length tkey < 2 ^ 64"
    and "Registry_Get E (''module.loadbinary_'' @ tkey) = None"
  shows "load_imports E (Suc k) s n w =
           (Inl (CheckFailed (''Loader of '' @ tkey @ ''('' @ ''module.loadbinary_'' @ tkey
                   @ '') is not presented.'')), n, w)"
  using Read_string_ahead(1) [OF assms(1,2)] assms(3) by simp

lemma load_imports_records:
  assumes "\<forall>r \<in> set rs. consumes_payload E decode effect r \<and> length (fst r) < 2 ^ 64"
    and "stream_ahead s (concat (map enc_record rs) @ rest)"
  shows "load_imports E (length rs) s n w =
           (Inr (skip (length (concat (map enc_record rs))) s),
            n\<lparr>imports' := imports' n @ map (\<lambda>r. decode (fst r) (snd r)) rs\<rparr>,
            w\<lparr>external := fold (\<lambda>r. effect (fst r) (snd r)) rs (external w)\<rparr>)
       \<and> stream_ahead (skip (length (concat (map enc_record rs))) s) rest"
  using assms
proof (induction rs arbitrary: s n w)
  case Nil
  then show ?case by simp
next
  case (Cons r rs)
  from Cons.prems(1) have cp: "consumes_payload E decode effect r"
    and len: "length (fst r) < 2 ^ 64"
    and others: "\<forall>r \<in> set rs. consumes_payload E decode effect r \<and> length (fst r) < 2 ^ 64"
    by simp_all
  from cp obtain f where reg: "Registry_Get E (''module.loadbinary_'' @ fst r) = Some f"
    and run: "\<And>s x rest. stream_ahead s (snd r @ rest) \<Longrightarrow>
           f s x = (Inr (decode (fst r) (snd r), skip (length (snd r)) s), effect (fst r) (snd r) x)"
    by (auto simp: consumes_payload_def)
  let ?tail = "concat (map enc_record rs) @ rest"
  from Cons.prems(2) have ahead: "stream_ahead s (enc_string (fst r) @ (snd r @ ?tail))"
    by (simp add: enc_record_def [of r])
  note key = Read_string_ahead [OF ahead len]
  let ?s1 = "skip (8 + length (fst r)) s"
  note pay = Read_ahead(2) [OF key(2)]
  let ?s2 = "skip (length (snd r)) ?s1"
  let ?n2 = "n\<lparr>imports' := imports' n @ [decode (fst r) (snd r)]\<rparr>"
  let ?w2 = "w\<lparr>external := effect (fst r) (snd r) (external w)\<rparr>"
  have step: "load_imports E (Suc (length rs)) s n w = load_imports E (length rs) ?s2 ?n2 ?w2"
    using key(1) reg run [OF key(2)] by simp
  note ih = Cons.IH [OF others pay, of ?n2 ?w2]
  have len_r: "length (enc_record r) = 8 + length (fst r) + length (snd r)"
    by (simp add: enc_record_def [of r])
  show ?case
    using step ih by (simp add: len_r add.assoc)
qed

subsection \<open>The steps of initialization\<close>

lemma new_node_simps [simp]:
  "self_addr (new_DSOModuleNode a) = a"
  "imports' (new_DSOModuleNode a) = []"
  "lib_handle' (new_DSOModuleNode a) = None"
  by (simp_all add: new_DSOModuleNode_def)

lemma ctx_written_frame [simp]:
  "external (ctx_written E n w) = external w"
  "unloaded (ctx_written E n w) = unloaded w"
  "last_error (ctx_written E n w) = last_error w"
  by (simp_all add: ctx_written_def split: option.splits)

lemma Load_frame [simp]:
  "self_addr (Load E name n) = self_addr n"
  "imports' (Load E name n) = imports' n"
  by (simp_all add: Load_def)

lemma load_imports_frame:
  assumes "load_imports E k s n w = (r, n', w')"
  shows "lib_handle' n' = lib_handle' n \<and> self_addr n' = self_addr n
       \<and> ptr_cells w' = ptr_cells w \<and> unloaded w' = unloaded w \<and> last_error w' = last_error w"
  using assms
proof (induction k arbitrary: s n w)
  case 0
  then show ?case by auto
next
  case (Suc k)
  show ?case
  proof (cases "Read_string s")
    case None
    with Suc.prems show ?thesis by auto
  next
    case (Some a)
    obtain tkey s1 where a: "a = (tkey, s1)" by (cases a)
    show ?thesis
    proof (cases "Registry_Get E (''module.loadbinary_'' @ tkey)")
      case None
      with Suc.prems Some a show ?thesis by auto
    next
      case (Some f)
      obtain res x where fr: "f s1 (external w) = (res, x)" by (cases "f s1 (external w)")
      show ?thesis
      proof (cases res)
        case (Inl e)
        with Suc.prems \<open>Read_string s = Some a\<close> a Some fr show ?thesis by auto
      next
        case (Inr b)
        obtain m s2 where b: "b = (m, s2)" by (cases b)
        from Suc.prems \<open>Read_string s = Some a\<close> a Some fr Inr b
        have "load_imports E k s2 (n\<lparr>imports' := imports' n @ [m]\<rparr>) (w\<lparr>external := x\<rparr>) = (r, n', w')"
          by simp
        from Suc.IH [OF this] show ?thesis by simp
      qed
    qed
  qed
qed

lemma Init_load_failed:
  assumes "lib_handle' (Load E name n0) = None"
  shows "Init E name n0 w0 =
           (Inl (CheckFailed (''Failed to load dynamic shared library '' @ name)), Load E name n0, w0)"
  using assms by (simp add: Init_def Let_def)

lemma Init_no_blob:
  assumes "lib_handle' (Load E name n0) \<noteq> None"
    and "GetGlobalVPtr E (Load E name n0) (tvm_dev_mblob (sym E)) = None"
  shows "Init E name n0 w0 = (Inr (), Load E name n0, ctx_written E (Load E name n0) w0)"
  using assms by (auto simp add: Init_def Let_def ctx_written_def)

lemma Init_no_nbytes:
  assumes "lib_handle' (Load E name n0) \<noteq> None"
    and "GetGlobalVPtr E (Load E name n0) (tvm_dev_mblob (sym E)) = Some p"
    and "GetGlobalVPtr E (Load E name n0) (tvm_dev_mblob_nbytes (sym E)) = None"
  shows "Init E name n0 w0 = (Inl (CheckFailed []), Load E name n0, ctx_written E (Load E name n0) w0)"
  using assms by (auto simp add: Init_def Let_def ctx_written_def)

lemma Init_short_count:
  assumes "lib_handle' (Load E name n0) \<noteq> None"
    and "GetGlobalVPtr E (Load E name n0) (tvm_dev_mblob (sym E)) = Some p"
    and "GetGlobalVPtr E (Load E name n0) (tvm_dev_mblob_nbytes (sym E)) = Some q"
    and "Read_uint64 (MemoryFixedSizeStream E p (ulong_at E q)) = None"
  shows "Init E name n0 w0 = (Inl (CheckFailed []), Load E name n0, ctx_written E (Load E name n0) w0)"
  using assms by (auto simp add: Init_def Let_def ctx_written_def)

lemma Init_catalog:
  assumes "lib_handle' (Load E name n0) \<noteq> None"
    and "GetGlobalVPtr E (Load E name n0) (tvm_dev_mblob (sym E)) = Some p"
    and "GetGlobalVPtr E (Load E name n0) (tvm_dev_mblob_nbytes (sym E)) = Some q"
    and "Read_uint64 (MemoryFixedSizeStream E p (ulong_at E q)) = Some (count, s)"
  shows "Init E name n0 w0 =
           (case load_imports E count s (Load E name n0) (ctx_written E (Load E name n0) w0) of
              (Inl e, n', w') \<Rightarrow> (Inl e, n', w')
            | (Inr s', n', w') \<Rightarrow> (Inr (), n', w'))"
  using assms by (auto simp add: Init_def Let_def ctx_written_def)

lemma Init_frame:
  assumes "Init E name n0 w0 = (r, n', w')"
  shows "lib_handle' n' = lib_handle' (Load E name n0) \<and> self_addr n' = self_addr n0
       \<and> unloaded w' = unloaded w0 \<and> last_error w' = last_error w0
       \<and> (lib_handle' (Load E name n0) \<noteq> None \<longrightarrow>
            ptr_cells w' = ptr_cells (ctx_written E (Load E name n0) w0))
       \<and> (lib_handle' (Load E name n0) = None \<longrightarrow> w' = w0)"
proof (cases "lib_handle' (Load E name n0) = None")
  case True
  from Init_load_failed [OF True, of w0] assms True show ?thesis by auto
next
  case loaded: False
  show ?thesis
  proof (cases "GetGlobalVPtr E (Load E name n0) (tvm_dev_mblob (sym E))")
    case None
    from Init_no_blob [OF loaded None, of w0] assms loaded show ?thesis by auto
  next
    case (Some p)
    show ?thesis
    proof (cases "GetGlobalVPtr E (Load E name n0) (tvm_dev_mblob_nbytes (sym E))")
      case None
      from Init_no_nbytes [OF loaded Some None, of w0] assms loaded show ?thesis by auto
    next
      case nb: (Some q)
      show ?thesis
      proof (cases "Read_uint64 (MemoryFixedSizeStream E p (ulong_at E q))")
        case None
        from Init_short_count [OF loaded Some nb None, of w0] assms loaded show ?thesis by auto
      next
        case rd: (Some a)
        obtain count s where a: "a = (count, s)" by (cases a)
        obtain r1 n1 w1 where li:
          "load_imports E count s (Load E name n0) (ctx_written E (Load E name n0) w0) = (r1, n1, w1)"
          by (metis prod_cases3)
        from Init_catalog [OF loaded Some nb rd [unfolded a], of w0] assms li
        have "n' = n1 \<and> w' = w1" by (auto split: sum.splits)
        with load_imports_frame [OF li] loaded show ?thesis by auto
      qed
    qed
  qed
qed

lemma le_decode_zeros: "le_decode (replicate k 0) = 0"
  by (induction k) simp_all

lemma stream_ahead_new:
  "stream_ahead (MemoryFixedSizeStream E p nbytes) (map (byte_at E) [p ..< p + nbytes])"
  by (simp add: stream_ahead_def MemoryFixedSizeStream_def)

lemma load_imports_hide:
  "load_imports (E\<lparr>dlsym := d\<rparr>) k s n w = load_imports E k s n w"
  by (induction k arbitrary: s n w)
     (simp_all add: Let_def split: option.splits prod.splits sum.splits)

lemma load_imports_world:
  assumes "external w = external v"
    and "load_imports E k s n w = (r, n', w')"
    and "load_imports E k s n v = (r2, n2, v')"
  shows "r = r2 \<and> n' = n2 \<and> external w' = external v'"
  using assms
proof (induction k arbitrary: s n w v)
  case 0
  then show ?case by auto
next
  case (Suc k)
  show ?case
  proof (cases "Read_string s")
    case None
    with Suc.prems show ?thesis by auto
  next
    case (Some t)
    obtain tkey s1 where t: "t = (tkey, s1)" by (cases t)
    show ?thesis
    proof (cases "Registry_Get E (''module.loadbinary_'' @ tkey)")
      case None
      with Suc.prems Some t show ?thesis by auto
    next
      case reg: (Some f)
      obtain res x where fr: "f s1 (external w) = (res, x)" by (cases "f s1 (external w)")
      with Suc.prems(1) have fv: "f s1 (external v) = (res, x)" by simp
      show ?thesis
      proof (cases res)
        case (Inl e)
        with Suc.prems Some t reg fr fv show ?thesis by auto
      next
        case (Inr b)
        obtain m s2 where b: "b = (m, s2)" by (cases b)
        let ?node = "n\<lparr>imports' := imports' n @ [m]\<rparr>"
        from Suc.prems(2) Some t reg fr Inr b
        have 1: "load_imports E k s2 ?node (w\<lparr>external := x\<rparr>) = (r, n', w')" by simp
        from Suc.prems(3) Some t reg fv Inr b
        have 2: "load_imports E k s2 ?node (v\<lparr>external := x\<rparr>) = (r2, n2, v')" by simp
        have "external (w\<lparr>external := x\<rparr>) = external (v\<lparr>external := x\<rparr>)" by simp
        from Suc.IH [OF this 1 2] show ?thesis .
      qed
    qed
  qed
qed

lemma Init_hide_ctx:
  assumes "tvm_module_ctx (sym E) \<noteq> tvm_dev_mblob (sym E)"
    and "tvm_module_ctx (sym E) \<noteq> tvm_dev_mblob_nbytes (sym E)"
  shows "fst (Init (hide_symbol (tvm_module_ctx (sym E)) E) name n0 w0) = fst (Init E name n0 w0)
       \<and> imports' (fst (snd (Init (hide_symbol (tvm_module_ctx (sym E)) E) name n0 w0)))
           = imports' (fst (snd (Init E name n0 w0)))
       \<and> external (snd (snd (Init (hide_symbol (tvm_module_ctx (sym E)) E) name n0 w0)))
           = external (snd (snd (Init E name n0 w0)))"
proof -
  let ?H = "hide_symbol (tvm_module_ctx (sym E)) E"
  let ?node = "Load E name n0"
  have ld: "Load ?H name n0 = ?node" by (simp add: Load_def hide_symbol_def)
  have sy: "sym ?H = sym E" by (simp add: hide_symbol_def)
  have g1: "GetGlobalVPtr ?H ?node (tvm_dev_mblob (sym E)) = GetGlobalVPtr E ?node (tvm_dev_mblob (sym E))"
    using assms(1) by (auto simp: GetGlobalVPtr_def hide_symbol_def)
  have g2: "GetGlobalVPtr ?H ?node (tvm_dev_mblob_nbytes (sym E))
              = GetGlobalVPtr E ?node (tvm_dev_mblob_nbytes (sym E))"
    using assms(2) by (auto simp: GetGlobalVPtr_def hide_symbol_def)
  have st: "\<And>p q. MemoryFixedSizeStream ?H p (ulong_at ?H q) = MemoryFixedSizeStream E p (ulong_at E q)"
    by (simp add: MemoryFixedSizeStream_def hide_symbol_def)
  have li: "\<And>k s n w. load_imports ?H k s n w = load_imports E k s n w"
    by (simp add: hide_symbol_def load_imports_hide)
  have ex: "external (ctx_written ?H ?node w0) = external (ctx_written E ?node w0)" by simp
  show ?thesis
  proof (cases "lib_handle' ?node = None")
    case True
    then have "lib_handle' (Load ?H name n0) = None" by (simp add: ld)
    from Init_load_failed [OF this, of w0] Init_load_failed [OF True, of w0]
    show ?thesis by (simp add: ld)
  next
    case loaded: False
    then have loaded': "lib_handle' (Load ?H name n0) \<noteq> None" by (simp add: ld)
    show ?thesis
    proof (cases "GetGlobalVPtr E ?node (tvm_dev_mblob (sym E))")
      case None
      then have "GetGlobalVPtr ?H (Load ?H name n0) (tvm_dev_mblob (sym ?H)) = None"
        by (simp add: ld sy g1)
      from Init_no_blob [OF loaded' this, of w0] Init_no_blob [OF loaded None, of w0]
      show ?thesis by (simp add: ld)
    next
      case (Some p)
      then have mb': "GetGlobalVPtr ?H (Load ?H name n0) (tvm_dev_mblob (sym ?H)) = Some p"
        by (simp add: ld sy g1)
      show ?thesis
      proof (cases "GetGlobalVPtr E ?node (tvm_dev_mblob_nbytes (sym E))")
        case None
        then have "GetGlobalVPtr ?H (Load ?H name n0) (tvm_dev_mblob_nbytes (sym ?H)) = None"
          by (simp add: ld sy g2)
        from Init_no_nbytes [OF loaded' mb' this, of w0] Init_no_nbytes [OF loaded Some None, of w0]
        show ?thesis by (simp add: ld)
      next
        case nb: (Some q)
        then have nb': "GetGlobalVPtr ?H (Load ?H name n0) (tvm_dev_mblob_nbytes (sym ?H)) = Some q"
          by (simp add: ld sy g2)
        show ?thesis
        proof (cases "Read_uint64 (MemoryFixedSizeStream E p (ulong_at E q))")
          case None
          then have "Read_uint64 (MemoryFixedSizeStream ?H p (ulong_at ?H q)) = None"
            by (simp add: st)
          from Init_short_count [OF loaded' mb' nb' this, of w0]
            Init_short_count [OF loaded Some nb None, of w0]
          show ?thesis by (simp add: ld)
        next
          case rd: (Some c)
          obtain count s where c: "c = (count, s)" by (cases c)
          from rd c have rd': "Read_uint64 (MemoryFixedSizeStream ?H p (ulong_at ?H q)) = Some (count, s)"
            by (simp add: st)
          obtain r n' w' where 1: "load_imports E count s ?node (ctx_written ?H ?node w0) = (r, n', w')"
            by (metis prod_cases3)
          obtain r2 n2 v' where 2: "load_imports E count s ?node (ctx_written E ?node w0) = (r2, n2, v')"
            by (metis prod_cases3)
          note same = load_imports_world [OF ex 1 2]
          from Init_catalog [OF loaded' mb' nb' rd', of w0] 1
          have a: "Init ?H name n0 w0 = (case r of Inl e \<Rightarrow> Inl e | Inr s' \<Rightarrow> Inr (), n', w')"
            by (simp add: ld li split: sum.splits)
          from Init_catalog [OF loaded Some nb rd [unfolded c], of w0] 2
          have b: "Init E name n0 w0 = (case r2 of Inl e \<Rightarrow> Inl e | Inr s' \<Rightarrow> Inr (), n2, v')"
            by (simp split: sum.splits)
          from same show ?thesis by (simp add: a b)
        qed
      qed
    qed
  qed
qed

subsection \<open>The test library\<close>

lemma ex_env_fields [simp]:
  "sym (ex_env ex b r) = ex_sym"
  "dlopen (ex_env ex b r) path = (if path = ''lib.so'' then Some 1 else None)"
  "dlsym (ex_env ex b r) h s = (if h = Some 1 then ex s else None)"
  "cstr_at (ex_env ex b r) a = (if a = 2 then ''foo'' else [])"
  "byte_at (ex_env ex b r) a = (if 16 \<le> a \<and> a < 16 + length b then b ! (a - 16) else 0)"
  "ulong_at (ex_env ex b r) a = length b"
  "code_at (ex_env ex b r) a = (if a = 3 then ex_ok else ex_fail)"
  "Registry_Get (ex_env ex b r) = r"
  "check_eq_text (ex_env ex b r) = ex_check_eq_text"
  by (simp_all add: ex_env_def)

lemma ex_sym_fields [simp]:
  "tvm_module_ctx ex_sym = ''__tvm_module_ctx''"
  "tvm_dev_mblob ex_sym = ''__tvm_dev_mblob''"
  "tvm_dev_mblob_nbytes ex_sym = ''__tvm_dev_mblob_nbytes''"
  "tvm_module_main ex_sym = ''__tvm_main__''"
  by (simp_all add: ex_sym_def)

lemma ex_Load [simp]:
  "lib_handle' (Load (ex_env ex b r) ''lib.so'' n) = Some 1"
  by (simp add: Load_def)

lemma ex_GetGlobalVPtr [simp]:
  "GetGlobalVPtr (ex_env ex b r) (Load (ex_env ex b r) ''lib.so'' n) s = ex s"
  by (simp add: GetGlobalVPtr_def)

lemma ex_blob_bytes:
  "map (byte_at (ex_env ex b r)) [16 ..< 16 + ulong_at (ex_env ex b r) q] = b"
  by (rule nth_equalityI) simp_all

lemma ex_loader_consumes:
  assumes "r (''module.loadbinary_'' @ key) = Some (ex_loader key (length payload))"
  shows "consumes_payload (ex_env ex b r) Pair (\<lambda>k p x. x @ [k]) (key, payload)"
  unfolding consumes_payload_def
proof (intro exI conjI allI impI)
  show "Registry_Get (ex_env ex b r) (''module.loadbinary_'' @ fst (key, payload))
          = Some (ex_loader key (length payload))"
    using assms by simp
next
  fix s :: stream and x :: "string list" and rest
  assume "stream_ahead s (snd (key, payload) @ rest)"
  then have "stream_ahead s (payload @ rest)" by simp
  from Read_ahead(1) [OF this]
  show "ex_loader key (length payload) s x =
          (Inr ((fst (key, payload), snd (key, payload)), skip (length (snd (key, payload))) s),
           x @ [fst (key, payload)])"
    by (simp add: ex_loader_def)
qed


lemma ex_blob_xy_layout:
  "ex_blob_xy = enc_catalog 2 [(''x'', [1, 2]), (''y'', [3, 4, 5])]"
  by code_simp

lemma ex_blob_xy_prefix:
  "ex_blob_xy = enc_uint64 2 @ concat (map enc_record [(''x'', [1, 2])]) @ enc_string ''y'' @ [3, 4, 5]"
  by code_simp

section \<open>The claims\<close>

text \<open>
  C1, as amended. After a successful load, a library whose embedded-blob pointer symbol does
  not resolve (whether or not the length symbol does) has no embedded sub-modules: \<open>Init\<close>
  succeeds, the imports of the fresh object stay empty and no deserializer runs (the state
  of the external collaborators is untouched). When the pointer symbol resolves and the
  length symbol does not, \<open>CHECK(dev_mblob_nbytes != nullptr)\<close> fails: \<open>Init\<close> fails fatally,
  again with empty imports and no deserializer run.
\<close>

theorem Init_blob_symbols:
  assumes "lib_handle' (Load E name (new_DSOModuleNode a)) \<noteq> None"
  shows "(GetGlobalVPtr E (Load E name (new_DSOModuleNode a)) (tvm_dev_mblob (sym E)) = None \<longrightarrow>
            fst (Init E name (new_DSOModuleNode a) w0) = Inr ()
          \<and> imports' (fst (snd (Init E name (new_DSOModuleNode a) w0))) = []
          \<and> external (snd (snd (Init E name (new_DSOModuleNode a) w0))) = external w0)
       \<and> (GetGlobalVPtr E (Load E name (new_DSOModuleNode a)) (tvm_dev_mblob (sym E)) \<noteq> None
          \<and> GetGlobalVPtr E (Load E name (new_DSOModuleNode a)) (tvm_dev_mblob_nbytes (sym E)) = None \<longrightarrow>
            fst (Init E name (new_DSOModuleNode a) w0) = Inl (CheckFailed [])
          \<and> imports' (fst (snd (Init E name (new_DSOModuleNode a) w0))) = []
          \<and> external (snd (snd (Init E name (new_DSOModuleNode a) w0))) = external w0)"
proof (intro conjI impI)
  assume "GetGlobalVPtr E (Load E name (new_DSOModuleNode a)) (tvm_dev_mblob (sym E)) = None"
  note eq = Init_no_blob [OF assms this, of w0]
  show "fst (Init E name (new_DSOModuleNode a) w0) = Inr ()" by (simp add: eq)
  show "imports' (fst (snd (Init E name (new_DSOModuleNode a) w0))) = []" by (simp add: eq)
  show "external (snd (snd (Init E name (new_DSOModuleNode a) w0))) = external w0" by (simp add: eq)
next
  assume h: "GetGlobalVPtr E (Load E name (new_DSOModuleNode a)) (tvm_dev_mblob (sym E)) \<noteq> None
          \<and> GetGlobalVPtr E (Load E name (new_DSOModuleNode a)) (tvm_dev_mblob_nbytes (sym E)) = None"
  then obtain p where p: "GetGlobalVPtr E (Load E name (new_DSOModuleNode a)) (tvm_dev_mblob (sym E)) = Some p"
    by auto
  from h have q: "GetGlobalVPtr E (Load E name (new_DSOModuleNode a)) (tvm_dev_mblob_nbytes (sym E)) = None"
    by simp
  note eq = Init_no_nbytes [OF assms p q, of w0]
  show "fst (Init E name (new_DSOModuleNode a) w0) = Inl (CheckFailed [])" by (simp add: eq)
  show "imports' (fst (snd (Init E name (new_DSOModuleNode a) w0))) = []" by (simp add: eq)
  show "external (snd (snd (Init E name (new_DSOModuleNode a) w0))) = external w0" by (simp add: eq)
qed

text \<open>Both cases at concrete libraries: one exports only the length, one only the pointer.\<close>

theorem Init_blob_symbols_witness:
  "fst (Init ex_only_nbytes ''lib.so'' (new_DSOModuleNode 7) ex_world) = Inr ()
   \<and> imports' (fst (snd (Init ex_only_nbytes ''lib.so'' (new_DSOModuleNode 7) ex_world))) = []
   \<and> fst (Init ex_only_mblob ''lib.so'' (new_DSOModuleNode 7) ex_world) = Inl (CheckFailed [])
   \<and> imports' (fst (snd (Init ex_only_mblob ''lib.so'' (new_DSOModuleNode 7) ex_world))) = []"
proof -
  have a: "lib_handle' (Load ex_only_nbytes ''lib.so'' (new_DSOModuleNode 7)) \<noteq> None"
    by (simp add: ex_only_nbytes_def)
  have b: "lib_handle' (Load ex_only_mblob ''lib.so'' (new_DSOModuleNode 7)) \<noteq> None"
    by (simp add: ex_only_mblob_def)
  have pa: "GetGlobalVPtr ex_only_nbytes (Load ex_only_nbytes ''lib.so'' (new_DSOModuleNode 7))
              (tvm_dev_mblob (sym ex_only_nbytes)) = None"
    by (simp add: ex_only_nbytes_def)
  have pb: "GetGlobalVPtr ex_only_mblob (Load ex_only_mblob ''lib.so'' (new_DSOModuleNode 7))
              (tvm_dev_mblob (sym ex_only_mblob)) \<noteq> None
          \<and> GetGlobalVPtr ex_only_mblob (Load ex_only_mblob ''lib.so'' (new_DSOModuleNode 7))
              (tvm_dev_mblob_nbytes (sym ex_only_mblob)) = None"
    by (simp add: ex_only_mblob_def)
  from Init_blob_symbols [OF a, of ex_world] pa Init_blob_symbols [OF b, of ex_world] pb
  show ?thesis by blast
qed

text \<open>
  The claim as written asks for success whenever either symbol is missing. The library that
  exports the pointer but not the length is loaded, its length symbol does not resolve, and
  \<open>Init\<close> fails.
\<close>

theorem Init_blob_symbols_counterexample:
  "GetGlobalVPtr ex_only_mblob (Load ex_only_mblob ''lib.so'' (new_DSOModuleNode 7))
      (tvm_dev_mblob_nbytes (sym ex_only_mblob)) = None
   \<and> fst (Init ex_only_mblob ''lib.so'' (new_DSOModuleNode 7) ex_world) = Inl (CheckFailed [])"
  by (simp add: ex_only_mblob_def Init_def Let_def)

text \<open>
  C2. When the requested name is the module-main-entry identifier, \<open>GetFunction\<close> first
  resolves the symbol of that name as data. If it is absent the call fails fatally with
  \<open>Symbol ... is not presented\<close>, whatever else the library exports. If it is present at
  \<open>entry_name\<close>, the symbol looked up as the function is the string stored there,
  \<open>cstr_at E entry_name\<close>, not the requested name; and when that string resolves to
  \<open>faddr\<close>, the callable returned invokes the native function at \<open>faddr\<close>: every call
  leaves the world exactly as one run of that native function on the call's arguments
  leaves it, and succeeds exactly when that run returns status 0.
\<close>

theorem GetFunction_main_indirection:
  assumes "name = tvm_module_main (sym E)"
  shows "(GetGlobalVPtr E n (tvm_module_main (sym E)) = None \<longrightarrow>
            GetFunction E n name =
              Inl (CheckFailed (''Symbol '' @ tvm_module_main (sym E) @ '' is not presented'')))
       \<and> (\<forall>entry_name. GetGlobalVPtr E n (tvm_module_main (sym E)) = Some entry_name \<longrightarrow>
            GetFuncPtr E n name = Inr (GetFuncPtr' E n (cstr_at E entry_name))
          \<and> GetFunction E n name =
              Inr (map_option (packed_call E) (GetFuncPtr' E n (cstr_at E entry_name))))
       \<and> (\<forall>entry_name faddr.
            GetGlobalVPtr E n (tvm_module_main (sym E)) = Some entry_name
          \<and> GetFuncPtr' E n (cstr_at E entry_name) = Some faddr \<longrightarrow>
            (\<exists>f. GetFunction E n name = Inr (Some f)
               \<and> (\<forall>args w.
                    snd (f args w) =
                      snd (code_at E faddr (arg_values args) (type_codes args) (num_args args) w)
                  \<and> (fst (f args w) = Inr () \<longleftrightarrow>
                      fst (code_at E faddr (arg_values args) (type_codes args) (num_args args) w) = 0))))"
proof (intro conjI allI impI)
  assume "GetGlobalVPtr E n (tvm_module_main (sym E)) = None"
  with assms show "GetFunction E n name =
      Inl (CheckFailed (''Symbol '' @ tvm_module_main (sym E) @ '' is not presented''))"
    by (simp add: GetFunction_def GetFuncPtr_def)
next
  fix entry_name
  assume "GetGlobalVPtr E n (tvm_module_main (sym E)) = Some entry_name"
  with assms show "GetFuncPtr E n name = Inr (GetFuncPtr' E n (cstr_at E entry_name))"
    by (simp add: GetFuncPtr_def)
next
  fix entry_name
  assume "GetGlobalVPtr E n (tvm_module_main (sym E)) = Some entry_name"
  with assms show "GetFunction E n name =
      Inr (map_option (packed_call E) (GetFuncPtr' E n (cstr_at E entry_name)))"
    by (simp add: GetFunction_def GetFuncPtr_def split: option.splits)
next
  fix entry_name faddr
  assume h: "GetGlobalVPtr E n (tvm_module_main (sym E)) = Some entry_name
           \<and> GetFuncPtr' E n (cstr_at E entry_name) = Some faddr"
  with assms have g: "GetFunction E n name = Inr (Some (packed_call E faddr))"
    by (simp add: GetFunction_def GetFuncPtr_def)
  have run: "\<And>args w.
      snd (packed_call E faddr args w) =
        snd (code_at E faddr (arg_values args) (type_codes args) (num_args args) w)
    \<and> (fst (packed_call E faddr args w) = Inr () \<longleftrightarrow>
        fst (code_at E faddr (arg_values args) (type_codes args) (num_args args) w) = 0)"
    by (simp add: packed_call_def split: prod.splits)
  from g run show "\<exists>f. GetFunction E n name = Inr (Some f)
       \<and> (\<forall>args w.
            snd (f args w) =
              snd (code_at E faddr (arg_values args) (type_codes args) (num_args args) w)
          \<and> (fst (f args w) = Inr () \<longleftrightarrow>
              fst (code_at E faddr (arg_values args) (type_codes args) (num_args args) w) = 0))"
    by blast
qed

text \<open>
  A library whose indirection symbol holds \<open>foo\<close> resolves the main entry to the function at
  the address of \<open>foo\<close>, and calling the result runs that function: where \<open>foo\<close> is a
  native function that records \<open>boom\<close> and returns 1, the call fails and \<open>boom\<close> is the
  last error afterwards. A library without the indirection symbol fails fatally.
\<close>

theorem GetFunction_main_indirection_witness:
  "GetFunction ex_plain ex_node ''__tvm_main__'' = Inr (Some (packed_call ex_plain 3))
   \<and> GetFunction ex_main_bad ex_node ''__tvm_main__'' = Inr (Some (packed_call ex_main_bad 4))
   \<and> snd (packed_call ex_main_bad 4 ex_args ex_world) = ex_world\<lparr>last_error := ''boom''\<rparr>
   \<and> fst (packed_call ex_main_bad 4 ex_args ex_world) \<noteq> Inr ()
   \<and> GetFunction ex_no_main ex_node ''__tvm_main__''
       = Inl (CheckFailed ''Symbol __tvm_main__ is not presented'')"
proof -
  have a: "''__tvm_main__'' = tvm_module_main (sym ex_plain)" by (simp add: ex_plain_def)
  have b: "''__tvm_main__'' = tvm_module_main (sym ex_no_main)" by (simp add: ex_no_main_def)
  have c: "''__tvm_main__'' = tvm_module_main (sym ex_main_bad)" by (simp add: ex_main_bad_def)
  have pa: "GetGlobalVPtr ex_plain ex_node (tvm_module_main (sym ex_plain)) = Some 2"
    by (simp add: ex_plain_def GetGlobalVPtr_def ex_node_def)
  have pb: "GetGlobalVPtr ex_no_main ex_node (tvm_module_main (sym ex_no_main)) = None"
    by (simp add: ex_no_main_def GetGlobalVPtr_def ex_node_def)
  have pc: "GetGlobalVPtr ex_main_bad ex_node (tvm_module_main (sym ex_main_bad)) = Some 2"
    by (simp add: ex_main_bad_def GetGlobalVPtr_def ex_node_def)
  have fa: "GetFuncPtr' ex_plain ex_node (cstr_at ex_plain 2) = Some 3"
    by (simp add: ex_plain_def GetFuncPtr'_def ex_node_def)
  have fc: "GetFuncPtr' ex_main_bad ex_node (cstr_at ex_main_bad 2) = Some 4"
    by (simp add: ex_main_bad_def GetFuncPtr'_def ex_node_def)
  have sb: "tvm_module_main (sym ex_no_main) = ''__tvm_main__''" by (simp add: ex_no_main_def)
  have native: "code_at ex_main_bad 4 (arg_values ex_args) (type_codes ex_args) (num_args ex_args)
                  ex_world = (1, ex_world\<lparr>last_error := ''boom''\<rparr>)"
    by (simp add: ex_main_bad_def ex_fail_def)
  from GetFunction_main_indirection [OF a, of ex_node] pa fa
  have 1: "GetFunction ex_plain ex_node ''__tvm_main__'' = Inr (Some (packed_call ex_plain 3))"
    by simp
  from GetFunction_main_indirection [OF b, of ex_node] pb
  have 2: "GetFunction ex_no_main ex_node ''__tvm_main__''
             = Inl (CheckFailed ''Symbol __tvm_main__ is not presented'')"
    by (simp add: sb)
  note m = GetFunction_main_indirection [OF c, of ex_node]
  from m pc fc
  have 3: "GetFunction ex_main_bad ex_node ''__tvm_main__'' = Inr (Some (packed_call ex_main_bad 4))"
    by simp
  from m pc fc obtain f where f: "GetFunction ex_main_bad ex_node ''__tvm_main__'' = Inr (Some f)"
    and run: "\<And>args w.
        snd (f args w) =
          snd (code_at ex_main_bad 4 (arg_values args) (type_codes args) (num_args args) w)
      \<and> (fst (f args w) = Inr () \<longleftrightarrow>
          fst (code_at ex_main_bad 4 (arg_values args) (type_codes args) (num_args args) w) = 0)"
    by blast
  from f 3 have "f = packed_call ex_main_bad 4" by simp
  with run [of ex_args ex_world] native
  have 4: "snd (packed_call ex_main_bad 4 ex_args ex_world) = ex_world\<lparr>last_error := ''boom''\<rparr>"
    and 5: "fst (packed_call ex_main_bad 4 ex_args ex_world) \<noteq> Inr ()"
    by simp_all
  from 1 2 3 4 5 show ?thesis by simp
qed

text \<open>
  C3. Let the catalog announce \<open>count\<close> records and start with the records \<open>good\<close>, each
  with a registered deserializer that consumes exactly its payload, followed by a record
  whose type key \<open>tkey\<close> has nothing registered under \<open>module.loadbinary_tkey\<close> (so the
  unregistered record is number \<open>length good + 1\<close>, and \<open>rest\<close> is whatever follows its
  key). Then \<open>Init\<close> fails fatally with \<open>Loader of tkey(module.loadbinary_tkey) is not
  presented.\<close>, the imports are exactly the modules of \<open>good\<close> in order, and the external
  state is the one left by the deserializers of \<open>good\<close>: no deserializer has run for the
  unregistered record or after it, whatever \<open>rest\<close> and the rest of the registry are.
\<close>

theorem Init_unregistered_type_key:
  assumes loaded: "lib_handle' (Load E name (new_DSOModuleNode a)) \<noteq> None"
    and mblob: "GetGlobalVPtr E (Load E name (new_DSOModuleNode a)) (tvm_dev_mblob (sym E)) = Some p"
    and nbytes: "GetGlobalVPtr E (Load E name (new_DSOModuleNode a)) (tvm_dev_mblob_nbytes (sym E)) = Some q"
    and blob: "map (byte_at E) [p ..< p + ulong_at E q] =
                 enc_uint64 count @ concat (map enc_record good) @ enc_string tkey @ rest"
    and count: "length good < count" "count < 2 ^ 64"
    and good: "\<forall>r \<in> set good. consumes_payload E decode effect r \<and> length (fst r) < 2 ^ 64"
    and tkey: "length tkey < 2 ^ 64"
    and unregistered: "Registry_Get E (''module.loadbinary_'' @ tkey) = None"
  shows "fst (Init E name (new_DSOModuleNode a) w0) =
           Inl (CheckFailed (''Loader of '' @ tkey @ ''('' @ ''module.loadbinary_'' @ tkey
                  @ '') is not presented.''))
       \<and> imports' (fst (snd (Init E name (new_DSOModuleNode a) w0))) =
           map (\<lambda>r. decode (fst r) (snd r)) good
       \<and> external (snd (snd (Init E name (new_DSOModuleNode a) w0))) =
           fold (\<lambda>r. effect (fst r) (snd r)) good (external w0)"
proof -
  let ?fresh = "new_DSOModuleNode a :: 'a DSOModuleNode"
  let ?node = "Load E name ?fresh"
  let ?world = "ctx_written E ?node w0"
  let ?strm = "MemoryFixedSizeStream E p (ulong_at E q)"
  let ?body = "concat (map enc_record good)"
  have "stream_ahead ?strm (map (byte_at E) [p ..< p + ulong_at E q])"
    by (rule stream_ahead_new)
  then have "stream_ahead ?strm (enc_uint64 count @ (?body @ (enc_string tkey @ rest)))"
    by (simp only: blob)
  note rd = Read_uint64_ahead [OF this count(2)]
  note recs = load_imports_records [OF good rd(2), of ?node ?world]
  let ?strmB = "skip (length ?body) (skip 8 ?strm)"
  let ?nodeB = "?node\<lparr>imports' := imports' ?node @ map (\<lambda>r. decode (fst r) (snd r)) good\<rparr>"
  let ?worldB = "?world\<lparr>external := fold (\<lambda>r. effect (fst r) (snd r)) good (external ?world)\<rparr>"
  from count(1) obtain k where "count = Suc (length good + k)"
    by (auto dest: less_imp_Suc_add)
  then have k: "count = length good + Suc k" by simp
  from recs have ahead: "stream_ahead ?strmB (enc_string tkey @ rest)" by simp
  from recs have first: "load_imports E (length good) (skip 8 ?strm) ?node ?world = (Inr ?strmB, ?nodeB, ?worldB)"
    by (rule conjunct1)
  have "load_imports E count (skip 8 ?strm) ?node ?world = load_imports E (Suc k) ?strmB ?nodeB ?worldB"
    unfolding k by (simp only: load_imports_add first sum.case prod.case)
  also note load_imports_unregistered [OF ahead tkey unregistered, of k ?nodeB ?worldB]
  finally have li: "load_imports E count (skip 8 ?strm) ?node ?world =
      (Inl (CheckFailed (''Loader of '' @ tkey @ ''('' @ ''module.loadbinary_'' @ tkey
              @ '') is not presented.'')), ?nodeB, ?worldB)" .
  note eq = Init_catalog [OF loaded mblob nbytes rd(1), of w0, unfolded li]
  show ?thesis by (simp add: eq)
qed

text \<open>
  The blob with count 2 and keys \<open>x\<close> then \<open>y\<close>, with only \<open>x\<close> registered: loading fails
  on \<open>y\<close> after \<open>x\<close> has been loaded, and the log of deserializer runs holds \<open>x\<close> alone.
\<close>

theorem Init_unregistered_type_key_witness:
  "fst (Init ex_xy ''lib.so'' (new_DSOModuleNode 7) ex_world)
     = Inl (CheckFailed ''Loader of y(module.loadbinary_y) is not presented.'')
   \<and> imports' (fst (snd (Init ex_xy ''lib.so'' (new_DSOModuleNode 7) ex_world))) = [(''x'', [1, 2])]
   \<and> external (snd (snd (Init ex_xy ''lib.so'' (new_DSOModuleNode 7) ex_world))) = [''x'']"
proof -
  have loaded: "lib_handle' (Load ex_xy ''lib.so'' (new_DSOModuleNode 7)) \<noteq> None"
    by (simp add: ex_xy_def)
  have mblob: "GetGlobalVPtr ex_xy (Load ex_xy ''lib.so'' (new_DSOModuleNode 7))
                 (tvm_dev_mblob (sym ex_xy)) = Some 16"
    by (simp add: ex_xy_def ex_blob_exports_def)
  have nbytes: "GetGlobalVPtr ex_xy (Load ex_xy ''lib.so'' (new_DSOModuleNode 7))
                  (tvm_dev_mblob_nbytes (sym ex_xy)) = Some 8"
    by (simp add: ex_xy_def ex_blob_exports_def)
  have "map (byte_at ex_xy) [16 ..< 16 + ulong_at ex_xy 8] = ex_blob_xy"
    unfolding ex_xy_def by (rule ex_blob_bytes)
  then have blob: "map (byte_at ex_xy) [16 ..< 16 + ulong_at ex_xy 8] =
      enc_uint64 2 @ concat (map enc_record [(''x'', [1, 2])]) @ enc_string ''y'' @ [3, 4, 5]"
    by (simp only: ex_blob_xy_prefix)
  have count: "length [(''x'', [1, 2 :: byte])] < (2 :: nat)" "(2 :: nat) < 2 ^ 64" by simp_all
  have "consumes_payload ex_xy Pair (\<lambda>k p x. x @ [k]) (''x'', [1, 2])"
    unfolding ex_xy_def by (rule ex_loader_consumes) (simp add: ex_registry_x_def numeral_2_eq_2)
  then have good: "\<forall>r \<in> set [(''x'', [1, 2])].
      consumes_payload ex_xy Pair (\<lambda>k p x. x @ [k]) r \<and> length (fst r) < 2 ^ 64"
    by simp
  have tkey: "length ''y'' < (2 :: nat) ^ 64" by simp
  have unreg: "Registry_Get ex_xy (''module.loadbinary_'' @ ''y'') = None"
    by (simp add: ex_xy_def ex_registry_x_def)
  from Init_unregistered_type_key [OF loaded mblob nbytes blob count good tkey unreg, of ex_world]
  show ?thesis by (simp add: ex_world_def)
qed




text \<open>
  C5. For a requested name other than the module-main-entry identifier whose symbol
  resolution yields null, \<open>GetFunction\<close> returns the empty \<open>PackedFunc\<close> normally; it
  raises no error.
\<close>

theorem GetFunction_not_found:
  assumes "name \<noteq> tvm_module_main (sym E)"
    and "GetFuncPtr' E n name = None"
  shows "GetFunction E n name = Inr None"
  using assms by (simp add: GetFunction_def GetFuncPtr_def)

text \<open>The same for \<open>nonexistent_symbol\<close> in a concrete library.\<close>

theorem GetFunction_not_found_witness:
  "''nonexistent_symbol'' \<noteq> tvm_module_main (sym ex_plain)
   \<and> GetFuncPtr' ex_plain ex_node ''nonexistent_symbol'' = None
   \<and> GetFunction ex_plain ex_node ''nonexistent_symbol'' = Inr None"
proof -
  have a: "''nonexistent_symbol'' \<noteq> tvm_module_main (sym ex_plain)"
    by (simp add: ex_plain_def)
  have b: "GetFuncPtr' ex_plain ex_node ''nonexistent_symbol'' = None"
    by (simp add: ex_plain_def GetFuncPtr'_def ex_node_def)
  show ?thesis using a b GetFunction_not_found [OF a b] by simp
qed

text \<open>
  C6, as amended. When the platform loader returns a null handle, \<open>Init\<close> fails fatally
  with \<open>Failed to load dynamic shared library name\<close>, the handle of the object stays null,
  and the destructor does not call \<open>Unload\<close> (it leaves the world as it was; so does the
  factory, which destroys the object on that failure). \<open>Init\<close> succeeds only if the loader
  returned a non-null handle. Whenever the handle is non-null, whether \<open>Init\<close> then
  succeeds or fails in a later step, the destructor unloads exactly that handle, once.
  A null handle is therefore never passed to \<open>Unload\<close>.
\<close>

theorem Init_load_check:
  "(lib_handle' (Load E name (new_DSOModuleNode a)) = None \<longrightarrow>
      fst (Init E name (new_DSOModuleNode a) w0) =
        Inl (CheckFailed (''Failed to load dynamic shared library '' @ name))
    \<and> lib_handle' (fst (snd (Init E name (new_DSOModuleNode a) w0))) = None
    \<and> destroy (fst (snd (Init E name (new_DSOModuleNode a) w0)))
         (snd (snd (Init E name (new_DSOModuleNode a) w0))) = w0
    \<and> loadfile_so E a name w0 =
        (Inl (CheckFailed (''Failed to load dynamic shared library '' @ name)), w0))
  \<and> (fst (Init E name (new_DSOModuleNode a) w0) = Inr () \<longrightarrow>
      lib_handle' (Load E name (new_DSOModuleNode a)) \<noteq> None)
  \<and> (lib_handle' (Load E name (new_DSOModuleNode a)) \<noteq> None \<longrightarrow>
      unloaded (destroy (fst (snd (Init E name (new_DSOModuleNode a) w0)))
         (snd (snd (Init E name (new_DSOModuleNode a) w0))))
        = unloaded w0 @ [lib_handle' (Load E name (new_DSOModuleNode a))])"
proof -
  let ?node = "new_DSOModuleNode a :: 'a DSOModuleNode"
  obtain r n' w' where run: "Init E name ?node w0 = (r, n', w')"
    by (metis prod_cases3)
  note fr = Init_frame [OF run]
  have null: "lib_handle' (Load E name ?node) = None \<Longrightarrow>
      Init E name ?node w0 = (Inl (CheckFailed (''Failed to load dynamic shared library '' @ name)), Load E name ?node, w0)"
    by (rule Init_load_failed)
  have 1: "lib_handle' (Load E name ?node) = None \<longrightarrow>
      fst (Init E name ?node w0) = Inl (CheckFailed (''Failed to load dynamic shared library '' @ name))
    \<and> lib_handle' (fst (snd (Init E name ?node w0))) = None
    \<and> destroy (fst (snd (Init E name ?node w0))) (snd (snd (Init E name ?node w0))) = w0
    \<and> loadfile_so E a name w0 =
        (Inl (CheckFailed (''Failed to load dynamic shared library '' @ name)), w0)"
    using null by (simp add: destroy_def loadfile_so_def)
  have 2: "fst (Init E name ?node w0) = Inr () \<longrightarrow> lib_handle' (Load E name ?node) \<noteq> None"
    using null by (cases "lib_handle' (Load E name ?node)") auto
  have 3: "lib_handle' (Load E name ?node) \<noteq> None \<longrightarrow>
      unloaded (destroy (fst (snd (Init E name ?node w0))) (snd (snd (Init E name ?node w0))))
        = unloaded w0 @ [lib_handle' (Load E name ?node)]"
    using fr by (auto simp: run destroy_def Unload_def)
  from 1 2 3 show ?thesis by blast
qed

text \<open>A path the loader rejects, and a path it accepts.\<close>

theorem Init_load_check_witness:
  "fst (Init ex_plain ''missing.so'' (new_DSOModuleNode 7) ex_world)
     = Inl (CheckFailed ''Failed to load dynamic shared library missing.so'')
   \<and> loadfile_so ex_plain 7 ''missing.so'' ex_world
     = (Inl (CheckFailed ''Failed to load dynamic shared library missing.so''), ex_world)
   \<and> fst (Init ex_plain ''lib.so'' (new_DSOModuleNode 7) ex_world) = Inr ()
   \<and> unloaded (destroy (fst (snd (Init ex_plain ''lib.so'' (new_DSOModuleNode 7) ex_world)))
        (snd (snd (Init ex_plain ''lib.so'' (new_DSOModuleNode 7) ex_world)))) = [Some 1]"
proof -
  have a: "lib_handle' (Load ex_plain ''missing.so'' (new_DSOModuleNode 7 :: ex_module DSOModuleNode)) = None"
    by (simp add: ex_plain_def Load_def)
  have b: "lib_handle' (Load ex_plain ''lib.so'' (new_DSOModuleNode 7 :: ex_module DSOModuleNode)) = Some 1"
    by (simp add: ex_plain_def)
  have c: "fst (Init ex_plain ''lib.so'' (new_DSOModuleNode 7) ex_world) = Inr ()"
    by (simp add: ex_plain_def Init_def Let_def)
  from Init_load_check [of ex_plain "''missing.so''" 7 ex_world] a
    Init_load_check [of ex_plain "''lib.so''" 7 ex_world] b c
  show ?thesis by (simp add: ex_world_def)
qed

text \<open>
  A non-null handle is not sufficient for \<open>Init\<close> to succeed, as the claim as written has
  it: the loader accepts this library, whose blob is too short to hold the count, and
  \<open>Init\<close> fails in the catalog step.
\<close>

theorem Init_load_check_counterexample:
  "lib_handle' (Load ex_short ''lib.so'' (new_DSOModuleNode 7)) \<noteq> None
   \<and> fst (Init ex_short ''lib.so'' (new_DSOModuleNode 7) ex_world) = Inl (CheckFailed [])"
  by (simp add: ex_short_def Init_def Let_def ex_blob_exports_def Read_uint64_def Read_def
        MemoryFixedSizeStream_def)

text \<open>
  C7. Let the blob hold the catalog of the records \<open>rs\<close> (the count \<open>length rs\<close>, then for
  each record its length-prefixed type key and its payload), possibly followed by further
  bytes, and let each record's type key have a registered deserializer that, started at its
  payload, returns the module \<open>decode key payload\<close>, acts on the external state by
  \<open>effect key payload\<close> and advances the shared cursor by exactly the length of the payload.
  Then \<open>Init\<close> succeeds, the imports are the modules of the records in catalog order, the
  effects of the deserializers have happened in catalog order, and the one cursor, which
  stands at byte 8 after the count has been read, ends at the end of the catalog: every
  record was read where the deserializer before it stopped.
\<close>

theorem Init_catalog_order:
  assumes loaded: "lib_handle' (Load E name (new_DSOModuleNode a)) \<noteq> None"
    and mblob: "GetGlobalVPtr E (Load E name (new_DSOModuleNode a)) (tvm_dev_mblob (sym E)) = Some p"
    and nbytes: "GetGlobalVPtr E (Load E name (new_DSOModuleNode a)) (tvm_dev_mblob_nbytes (sym E)) = Some q"
    and blob: "map (byte_at E) [p ..< p + ulong_at E q] = enc_catalog (length rs) rs @ rest"
    and count: "length rs < 2 ^ 64"
    and rs: "\<forall>r \<in> set rs. consumes_payload E decode effect r \<and> length (fst r) < 2 ^ 64"
  shows "fst (Init E name (new_DSOModuleNode a) w0) = Inr ()
       \<and> imports' (fst (snd (Init E name (new_DSOModuleNode a) w0))) =
           map (\<lambda>r. decode (fst r) (snd r)) rs
       \<and> external (snd (snd (Init E name (new_DSOModuleNode a) w0))) =
           fold (\<lambda>r. effect (fst r) (snd r)) rs (external w0)
       \<and> Read_uint64 (MemoryFixedSizeStream E p (ulong_at E q)) =
           Some (length rs, skip 8 (MemoryFixedSizeStream E p (ulong_at E q)))
       \<and> fst (load_imports E (length rs) (skip 8 (MemoryFixedSizeStream E p (ulong_at E q))) n w) =
           Inr (skip (length (enc_catalog (length rs) rs)) (MemoryFixedSizeStream E p (ulong_at E q)))"
proof -
  let ?fresh = "new_DSOModuleNode a :: 'a DSOModuleNode"
  let ?node = "Load E name ?fresh"
  let ?world = "ctx_written E ?node w0"
  let ?strm = "MemoryFixedSizeStream E p (ulong_at E q)"
  let ?body = "concat (map enc_record rs)"
  from stream_ahead_new [of E p "ulong_at E q"] blob
  have "stream_ahead ?strm (enc_uint64 (length rs) @ (?body @ rest))"
    by (simp add: enc_catalog_def)
  note rd = Read_uint64_ahead [OF this count]
  note recs = load_imports_records [OF rs rd(2)]
  note eq = Init_catalog [OF loaded mblob nbytes rd(1), of w0]
  have len: "length (enc_catalog (length rs) rs) = 8 + length ?body"
    by (simp add: enc_catalog_def)
  have 1: "fst (Init E name ?fresh w0) = Inr ()"
    using recs [of ?node ?world] by (simp add: eq)
  have 2: "imports' (fst (snd (Init E name ?fresh w0))) = map (\<lambda>r. decode (fst r) (snd r)) rs"
    using recs [of ?node ?world] by (simp add: eq)
  have 3: "external (snd (snd (Init E name ?fresh w0))) = fold (\<lambda>r. effect (fst r) (snd r)) rs (external w0)"
    using recs [of ?node ?world] by (simp add: eq)
  have 4: "fst (load_imports E (length rs) (skip 8 ?strm) n w) =
             Inr (skip (length (enc_catalog (length rs) rs)) ?strm)"
    using recs [of n w] by (simp add: len)
  from 1 2 3 4 rd(1) show ?thesis by blast
qed

text \<open>
  Two chained records with payloads of 2 and of 3 bytes: both modules are loaded with their
  own payload, in order.
\<close>

theorem Init_catalog_order_witness:
  "fst (Init ex_chain ''lib.so'' (new_DSOModuleNode 7) ex_world) = Inr ()
   \<and> imports' (fst (snd (Init ex_chain ''lib.so'' (new_DSOModuleNode 7) ex_world)))
     = [(''x'', [1, 2]), (''y'', [3, 4, 5])]
   \<and> external (snd (snd (Init ex_chain ''lib.so'' (new_DSOModuleNode 7) ex_world))) = [''x'', ''y'']"
proof -
  let ?rs = "[(''x'', [1, 2]), (''y'', [3, 4, 5 :: byte])]"
  have loaded: "lib_handle' (Load ex_chain ''lib.so'' (new_DSOModuleNode 7)) \<noteq> None"
    by (simp add: ex_chain_def)
  have mblob: "GetGlobalVPtr ex_chain (Load ex_chain ''lib.so'' (new_DSOModuleNode 7))
                 (tvm_dev_mblob (sym ex_chain)) = Some 16"
    by (simp add: ex_chain_def ex_blob_exports_def)
  have nbytes: "GetGlobalVPtr ex_chain (Load ex_chain ''lib.so'' (new_DSOModuleNode 7))
                  (tvm_dev_mblob_nbytes (sym ex_chain)) = Some 8"
    by (simp add: ex_chain_def ex_blob_exports_def)
  have "map (byte_at ex_chain) [16 ..< 16 + ulong_at ex_chain 8] = ex_blob_xy"
    unfolding ex_chain_def by (rule ex_blob_bytes)
  then have blob: "map (byte_at ex_chain) [16 ..< 16 + ulong_at ex_chain 8]
                     = enc_catalog (length ?rs) ?rs @ []"
    by (simp add: ex_blob_xy_layout numeral_2_eq_2)
  have count: "length ?rs < 2 ^ 64" by simp
  have x: "consumes_payload ex_chain Pair (\<lambda>k p x. x @ [k]) (''x'', [1, 2])"
    unfolding ex_chain_def by (rule ex_loader_consumes) (simp add: ex_registry_def numeral_2_eq_2)
  have y: "consumes_payload ex_chain Pair (\<lambda>k p x. x @ [k]) (''y'', [3, 4, 5])"
    unfolding ex_chain_def by (rule ex_loader_consumes) (simp add: ex_registry_def numeral_3_eq_3)
  from x y have rs: "\<forall>r \<in> set ?rs.
      consumes_payload ex_chain Pair (\<lambda>k p x. x @ [k]) r \<and> length (fst r) < 2 ^ 64"
    by simp
  from Init_catalog_order [OF loaded mblob nbytes blob count rs, of ex_world]
  show ?thesis by (simp add: ex_world_def)
qed

text \<open>
  C8. When both blob symbols resolve and the blob starts with eight zero bytes (the count 0),
  \<open>Init\<close> succeeds and the imports of the fresh object are empty.
\<close>

theorem Init_count_zero:
  assumes "lib_handle' (Load E name (new_DSOModuleNode a)) \<noteq> None"
    and "GetGlobalVPtr E (Load E name (new_DSOModuleNode a)) (tvm_dev_mblob (sym E)) = Some p"
    and "GetGlobalVPtr E (Load E name (new_DSOModuleNode a)) (tvm_dev_mblob_nbytes (sym E)) = Some q"
    and "8 \<le> ulong_at E q"
    and "\<forall>i<8. byte_at E (p + i) = 0"
  shows "fst (Init E name (new_DSOModuleNode a) w0) = Inr ()
       \<and> imports' (fst (snd (Init E name (new_DSOModuleNode a) w0))) = []"
proof -
  let ?s = "MemoryFixedSizeStream E p (ulong_at E q)"
  have tk: "take 8 (map (byte_at E) [p ..< p + ulong_at E q]) = map (byte_at E) [p ..< p + 8]"
    using assms(4) by (simp add: take_map take_upt)
  have "map (byte_at E) [p ..< p + 8] = replicate 8 0"
    using assms(5) by (intro nth_equalityI) simp_all
  with tk have bytes: "take 8 (map (byte_at E) [p ..< p + ulong_at E q]) = replicate 8 0"
    by simp
  have rd: "Read_uint64 ?s = Some (0, ?s\<lparr>curr_ptr := 8\<rparr>)"
    using assms(4) bytes
    by (simp add: Read_uint64_def Read_def MemoryFixedSizeStream_def le_decode_zeros)
  note eq = Init_catalog [OF assms(1-3) rd, of w0]
  show ?thesis by (simp add: eq)
qed

text \<open>The same for a concrete library whose blob is eight zero bytes.\<close>

theorem Init_count_zero_witness:
  "fst (Init ex_empty_catalog ''lib.so'' (new_DSOModuleNode 7) ex_world) = Inr ()
   \<and> imports' (fst (snd (Init ex_empty_catalog ''lib.so'' (new_DSOModuleNode 7) ex_world))) = []"
proof -
  have loaded: "lib_handle' (Load ex_empty_catalog ''lib.so'' (new_DSOModuleNode 7)) \<noteq> None"
    by (simp add: ex_empty_catalog_def)
  have mblob: "GetGlobalVPtr ex_empty_catalog (Load ex_empty_catalog ''lib.so'' (new_DSOModuleNode 7))
                 (tvm_dev_mblob (sym ex_empty_catalog)) = Some 16"
    by (simp add: ex_empty_catalog_def ex_blob_exports_def)
  have nbytes: "GetGlobalVPtr ex_empty_catalog (Load ex_empty_catalog ''lib.so'' (new_DSOModuleNode 7))
                  (tvm_dev_mblob_nbytes (sym ex_empty_catalog)) = Some 8"
    by (simp add: ex_empty_catalog_def ex_blob_exports_def)
  have size: "8 \<le> ulong_at ex_empty_catalog 8" by (simp add: ex_empty_catalog_def)
  have zero: "\<forall>i<8. byte_at ex_empty_catalog (16 + i) = 0" by (simp add: ex_empty_catalog_def)
  from Init_count_zero [OF loaded mblob nbytes size zero, of ex_world]
  show ?thesis .
qed

text \<open>
  C9. After a successful load: if the module-context symbol resolves to the cell \<open>c\<close>, the
  pointer cells after \<open>Init\<close> are those before it with the object's own address stored in
  \<open>c\<close>; if it does not resolve, the pointer cells are unchanged. Its absence causes no
  error: provided its name differs from the two blob symbol names, removing the symbol
  from a library changes neither the outcome of \<open>Init\<close> nor the imports nor what the
  deserializers did.
\<close>

theorem Init_module_ctx:
  assumes "lib_handle' (Load E name (new_DSOModuleNode a)) \<noteq> None"
  shows "(\<forall>c. GetGlobalVPtr E (Load E name (new_DSOModuleNode a)) (tvm_module_ctx (sym E)) = Some c \<longrightarrow>
            ptr_cells (snd (snd (Init E name (new_DSOModuleNode a) w0))) = (ptr_cells w0)(c \<mapsto> a))
       \<and> (GetGlobalVPtr E (Load E name (new_DSOModuleNode a)) (tvm_module_ctx (sym E)) = None \<longrightarrow>
            ptr_cells (snd (snd (Init E name (new_DSOModuleNode a) w0))) = ptr_cells w0)
       \<and> (tvm_module_ctx (sym E) \<noteq> tvm_dev_mblob (sym E)
          \<and> tvm_module_ctx (sym E) \<noteq> tvm_dev_mblob_nbytes (sym E) \<longrightarrow>
            fst (Init (hide_symbol (tvm_module_ctx (sym E)) E) name (new_DSOModuleNode a) w0)
              = fst (Init E name (new_DSOModuleNode a) w0)
          \<and> imports' (fst (snd (Init (hide_symbol (tvm_module_ctx (sym E)) E) name (new_DSOModuleNode a) w0)))
              = imports' (fst (snd (Init E name (new_DSOModuleNode a) w0)))
          \<and> external (snd (snd (Init (hide_symbol (tvm_module_ctx (sym E)) E) name (new_DSOModuleNode a) w0)))
              = external (snd (snd (Init E name (new_DSOModuleNode a) w0))))"
proof -
  let ?fresh = "new_DSOModuleNode a :: 'a DSOModuleNode"
  obtain r n' w' where run: "Init E name ?fresh w0 = (r, n', w')"
    by (metis prod_cases3)
  from Init_frame [OF run] assms
  have cells: "ptr_cells (snd (snd (Init E name ?fresh w0))) = ptr_cells (ctx_written E (Load E name ?fresh) w0)"
    by (simp add: run)
  have 1: "\<forall>c. GetGlobalVPtr E (Load E name ?fresh) (tvm_module_ctx (sym E)) = Some c \<longrightarrow>
            ptr_cells (snd (snd (Init E name ?fresh w0))) = (ptr_cells w0)(c \<mapsto> a)"
    by (simp add: cells ctx_written_def)
  have 2: "GetGlobalVPtr E (Load E name ?fresh) (tvm_module_ctx (sym E)) = None \<longrightarrow>
            ptr_cells (snd (snd (Init E name ?fresh w0))) = ptr_cells w0"
    by (simp add: cells ctx_written_def)
  from 1 2 Init_hide_ctx [of E name ?fresh w0] show ?thesis by blast
qed

text \<open>A library with the context cell at address 5, an object at address 7, and a library without.\<close>

theorem Init_module_ctx_witness:
  "ptr_cells (snd (snd (Init ex_ctx ''lib.so'' (new_DSOModuleNode 7) ex_world))) 5 = Some 7
   \<and> ptr_cells (snd (snd (Init ex_plain ''lib.so'' (new_DSOModuleNode 7) ex_world)))
       = ptr_cells ex_world
   \<and> fst (Init (hide_symbol ''__tvm_module_ctx'' ex_ctx) ''lib.so'' (new_DSOModuleNode 7) ex_world)
       = fst (Init ex_ctx ''lib.so'' (new_DSOModuleNode 7) ex_world)"
proof -
  have a: "lib_handle' (Load ex_ctx ''lib.so'' (new_DSOModuleNode 7)) \<noteq> None"
    by (simp add: ex_ctx_def)
  have b: "lib_handle' (Load ex_plain ''lib.so'' (new_DSOModuleNode 7 :: ex_module DSOModuleNode)) \<noteq> None"
    by (simp add: ex_plain_def)
  have ca: "GetGlobalVPtr ex_ctx (Load ex_ctx ''lib.so'' (new_DSOModuleNode 7))
              (tvm_module_ctx (sym ex_ctx)) = Some 5"
    by (simp add: ex_ctx_def)
  have cb: "GetGlobalVPtr ex_plain (Load ex_plain ''lib.so'' (new_DSOModuleNode 7))
              (tvm_module_ctx (sym ex_plain)) = None"
    by (simp add: ex_plain_def)
  have names: "tvm_module_ctx (sym ex_ctx) \<noteq> tvm_dev_mblob (sym ex_ctx)
             \<and> tvm_module_ctx (sym ex_ctx) \<noteq> tvm_dev_mblob_nbytes (sym ex_ctx)"
    by (simp add: ex_ctx_def)
  have nm: "tvm_module_ctx (sym ex_ctx) = ''__tvm_module_ctx''" by (simp add: ex_ctx_def)
  from Init_module_ctx [OF a, of ex_world] ca names
  have 1: "ptr_cells (snd (snd (Init ex_ctx ''lib.so'' (new_DSOModuleNode 7) ex_world))) 5 = Some 7"
    and 3: "fst (Init (hide_symbol (tvm_module_ctx (sym ex_ctx)) ex_ctx) ''lib.so''
                (new_DSOModuleNode 7) ex_world)
          = fst (Init ex_ctx ''lib.so'' (new_DSOModuleNode 7) ex_world)"
    by simp_all
  from Init_module_ctx [OF b, of ex_world] cb
  have 2: "ptr_cells (snd (snd (Init ex_plain ''lib.so'' (new_DSOModuleNode 7) ex_world)))
             = ptr_cells ex_world"
    by simp
  from 1 2 3 show ?thesis unfolding nm by simp
qed

text \<open>
  C10. When the requested name is the module-main-entry identifier and the indirection
  symbol is present but the string it holds does not resolve, \<open>GetFunction\<close> returns the
  empty \<open>PackedFunc\<close> normally. For that name, \<open>GetFunction\<close> fails fatally exactly when
  the indirection symbol itself is absent.
\<close>

theorem GetFunction_main_dangling:
  assumes "name = tvm_module_main (sym E)"
  shows "(\<forall>entry_name. GetGlobalVPtr E n (tvm_module_main (sym E)) = Some entry_name
            \<and> GetFuncPtr' E n (cstr_at E entry_name) = None \<longrightarrow> GetFunction E n name = Inr None)
       \<and> ((\<exists>e. GetFunction E n name = Inl e) \<longleftrightarrow> GetGlobalVPtr E n (tvm_module_main (sym E)) = None)"
  using assms by (auto simp: GetFunction_def GetFuncPtr_def split: option.splits)

text \<open>
  The indirection symbol names \<open>foo\<close>, which the library does not export: not found. No
  indirection symbol: fatal.
\<close>

theorem GetFunction_main_dangling_witness:
  "GetFunction ex_dangling ex_node ''__tvm_main__'' = Inr None
   \<and> (\<exists>e. GetFunction ex_no_main ex_node ''__tvm_main__'' = Inl e)"
proof -
  have a: "''__tvm_main__'' = tvm_module_main (sym ex_dangling)" by (simp add: ex_dangling_def)
  have b: "''__tvm_main__'' = tvm_module_main (sym ex_no_main)" by (simp add: ex_no_main_def)
  have pa: "GetGlobalVPtr ex_dangling ex_node (tvm_module_main (sym ex_dangling)) = Some 2
            \<and> GetFuncPtr' ex_dangling ex_node (cstr_at ex_dangling 2) = None"
    by (simp add: ex_dangling_def GetGlobalVPtr_def GetFuncPtr'_def ex_node_def)
  have pb: "GetGlobalVPtr ex_no_main ex_node (tvm_module_main (sym ex_no_main)) = None"
    by (simp add: ex_no_main_def GetGlobalVPtr_def ex_node_def)
  from GetFunction_main_dangling [OF a, of ex_node] pa
  have 1: "GetFunction ex_dangling ex_node ''__tvm_main__'' = Inr None" by blast
  from GetFunction_main_dangling [OF b, of ex_node] pb
  have 2: "\<exists>e. GetFunction ex_no_main ex_node ''__tvm_main__'' = Inl e" by blast
  from 1 2 show ?thesis by simp
qed

end
